theory Spec2Isabelle
  imports Main "HOL-Library.List_Lexorder" "HOL-Library.Sublist"
begin

section \<open>Python strings and values\<close>

text \<open>
  A Python \<open>str\<close> is a sequence of Unicode code points, so it is modelled as a list of
  naturals. Equality, the substring test \<open>in\<close>, \<open>replace\<close> and the order used by
  \<open>sorted\<close> (lexicographic on code points, a proper prefix first) all read code
  points; the order is the one of \<open>HOL-Library.List_Lexorder\<close>.
\<close>

type_synonym pystr = "nat list"

abbreviation ascii :: "string \<Rightarrow> pystr" where
  "ascii s \<equiv> map of_char s"

text \<open>The Cyrillic literals of the source, by code point.\<close>

definition s_schet :: pystr where
  \<comment> \<open>U+0441 U+0447 U+0435 U+0442, the word for "invoice"\<close>
  "s_schet = [1089, 1095, 1077, 1090]"

definition s_nomer_scheta :: pystr where
  \<comment> \<open>the column name "invoice number": U+043D U+043E U+043C U+0435 U+0440 _ U+0441 U+0447 U+0435 U+0442 U+0430\<close>
  "s_nomer_scheta = [1085, 1086, 1084, 1077, 1088, 95, 1089, 1095, 1077, 1090, 1072]"

text \<open>\<open>sub in s\<close> on strings: \<open>sub\<close> occurs in \<open>s\<close> as a contiguous block.\<close>

fun py_in :: "pystr \<Rightarrow> pystr \<Rightarrow> bool" where
  "py_in sub [] = (sub = [])"
| "py_in sub (c # cs) = (prefix sub (c # cs) \<or> py_in sub cs)"

text \<open>
  \<open>str.lower()\<close>, given for the two alphabets the program's data uses: Basic Latin
  \<open>A-Z\<close> and the Cyrillic capitals U+0400 to U+042F. Other code points are returned
  as they are.
\<close>

definition lower_cp :: "nat \<Rightarrow> nat" where
  "lower_cp c =
     (if 65 \<le> c \<and> c \<le> 90 then c + 32
      else if 1040 \<le> c \<and> c \<le> 1071 then c + 32
      else if 1024 \<le> c \<and> c \<le> 1039 then c + 80
      else c)"

definition py_lower :: "pystr \<Rightarrow> pystr" where
  "py_lower s = map lower_cp s"

text \<open>
  The values a cell of a table or a field of a JSON record holds: \<open>None\<close>, booleans,
  integers, strings, lists and dicts, and \<open>nan\<close>, which pandas puts in a cell that has
  no value. A dict is an association list in insertion order (its keys are distinct).
  Other floats are not represented.
\<close>

datatype pyval =
    VNone
  | VBool bool
  | VInt int
  | VStr pystr
  | VNaN
  | VList "pyval list"
  | VDict "(pystr \<times> pyval) list"

text \<open>Decimal digits of a natural number, and \<open>str\<close> of an integer.\<close>

fun dec :: "nat \<Rightarrow> pystr" where
  "dec n = (if n < 10 then [48 + n] else dec (n div 10) @ [48 + n mod 10])"

declare dec.simps [simp del]

definition str_int :: "int \<Rightarrow> pystr" where
  "str_int i = (if i < 0 then 45 # dec (nat (- i)) else dec (nat i))"

text \<open>
  \<open>repr\<close> of a string: double quotes when the text has a single quote and no double
  quote, single quotes otherwise; the backslash, the chosen quote, newline, carriage
  return and tab are escaped, the other ASCII control characters are written
  \<open>\xNN\<close>. Code points from U+0080 on are taken to be printable.
\<close>

definition hex_digit :: "nat \<Rightarrow> nat" where
  "hex_digit d = (if d < 10 then 48 + d else 87 + d)"

definition repr_char :: "nat \<Rightarrow> nat \<Rightarrow> pystr" where
  "repr_char q c =
     (if c = 92 then [92, 92]
      else if c = q then [92, q]
      else if c = 10 then [92, 110]
      else if c = 13 then [92, 114]
      else if c = 9 then [92, 116]
      else if c < 32 \<or> c = 127 then [92, 120, hex_digit (c div 16), hex_digit (c mod 16)]
      else [c])"

definition repr_str :: "pystr \<Rightarrow> pystr" where
  "repr_str s =
     (let q = (if 39 \<in> set s \<and> 34 \<notin> set s then 34 else 39)
      in q # concat (map (repr_char q) s) @ [q])"

fun join :: "pystr \<Rightarrow> pystr list \<Rightarrow> pystr" where
  "join sep [] = []"
| "join sep [x] = x"
| "join sep (x # y # ys) = x @ sep @ join sep (y # ys)"

fun py_repr :: "pyval \<Rightarrow> pystr" where
  "py_repr VNone = ascii ''None''"
| "py_repr (VBool b) = (if b then ascii ''True'' else ascii ''False'')"
| "py_repr (VInt i) = str_int i"
| "py_repr (VStr s) = repr_str s"
| "py_repr VNaN = ascii ''nan''"
| "py_repr (VList xs) = ascii ''['' @ join (ascii '', '') (map py_repr xs) @ ascii '']''"
| "py_repr (VDict kvs) =
     ascii ''{'' @ join (ascii '', '') (map (\<lambda>kv. repr_str (fst kv) @ ascii '': '' @ py_repr (snd kv)) kvs)
       @ ascii ''}''"

text \<open>\<open>str(v)\<close>: a string is its own text, every other value prints as its \<open>repr\<close>.\<close>

definition py_str :: "pyval \<Rightarrow> pystr" where
  "py_str v = (case v of VStr s \<Rightarrow> s | _ \<Rightarrow> py_repr v)"

section \<open>Tables\<close>

text \<open>
  A pandas \<open>DataFrame\<close>: the column labels in order and the rows in order. A row holds
  one cell per column, by position. A row that is short of a column has \<open>nan\<close> there,
  as \<open>read_csv\<close> and \<open>DataFrame(list of dicts)\<close> fill a missing cell.
\<close>

record dataframe =
  columns :: "pystr list"
  rows :: "pyval list list"

definition cell :: "pystr list \<Rightarrow> pyval list \<Rightarrow> pystr \<Rightarrow> pyval" where
  "cell cols r c = (case map_of (zip cols r) c of Some v \<Rightarrow> v | None \<Rightarrow> VNaN)"

text \<open>\<open>data[c]\<close>: the cells of column \<open>c\<close>, one per row.\<close>

definition column :: "dataframe \<Rightarrow> pystr \<Rightarrow> pyval list" where
  "column df c = map (\<lambda>r. cell (columns df) r c) (rows df)"


text \<open>
  What the generators are handed as \<open>data\<close>: a \<open>DataFrame\<close>, or a plain Python value
  (a list of records when it comes from \<open>read_json_file\<close>).
\<close>

datatype pydata = Frame dataframe | Plain pyval

section \<open>PDFGenerator: finding invoices and filtering\<close>

text \<open>The test both methods apply to a name: \<open>'invoice' in name.lower() or 'id' in name.lower()\<close>.\<close>

definition is_invoice_key :: "pystr \<Rightarrow> bool" where
  "is_invoice_key name =
     (py_in (ascii ''invoice'') (py_lower name) \<or> py_in (ascii ''id'') (py_lower name))"

text \<open>
  The inner loop over \<open>item.keys()\<close>: it stops at the first key that passes the test
  and yields \<open>str(item[key])\<close>; \<open>None\<close> when no key passes.
\<close>

fun item_invoice :: "(pystr \<times> pyval) list \<Rightarrow> pystr option" where
  "item_invoice [] = None"
| "item_invoice ((k, v) # kvs) = (if is_invoice_key k then Some (py_str v) else item_invoice kvs)"

text \<open>The ids one element of a list contributes: none unless it is a dict with a passing key.\<close>

definition item_ids :: "pyval \<Rightarrow> pystr list" where
  "item_ids item =
     (case item of
        VDict d \<Rightarrow> (case item_invoice d of Some s \<Rightarrow> [s] | None \<Rightarrow> [])
      | _ \<Rightarrow> [])"

text \<open>\<open>PDFGenerator.get_available_invoices\<close>: the ids are collected in a set and returned sorted.\<close>

definition get_available_invoices :: "pydata \<Rightarrow> pystr list" where
  "get_available_invoices data =
     (case data of
        Frame df \<Rightarrow>
          (case filter is_invoice_key (columns df) of
             [] \<Rightarrow> []
           | c # _ \<Rightarrow> sort (remdups (map py_str (column df c))))
      | Plain (VList items) \<Rightarrow> sort (remdups (concat (map item_ids items)))
      | Plain _ \<Rightarrow> [])"

text \<open>\<open>data[mask]\<close>: the rows on which the test holds, under the same columns.\<close>

definition select_rows :: "dataframe \<Rightarrow> (pyval list \<Rightarrow> bool) \<Rightarrow> dataframe" where
  "select_rows df keep = df\<lparr>rows := filter keep (rows df)\<rparr>"

text \<open>Whether the list branch of the filter appends an element.\<close>

definition item_matches :: "pystr \<Rightarrow> pyval \<Rightarrow> bool" where
  "item_matches invoice_id item =
     (case item of VDict d \<Rightarrow> item_invoice d = Some invoice_id | _ \<Rightarrow> False)"

text \<open>\<open>PDFGenerator.filter_data_by_invoice\<close>\<close>

definition filter_data_by_invoice :: "pydata \<Rightarrow> pystr \<Rightarrow> pydata" where
  "filter_data_by_invoice data invoice_id =
     (case data of
        Frame df \<Rightarrow>
          (case filter is_invoice_key (columns df) of
             [] \<Rightarrow> data
           | c # _ \<Rightarrow> Frame (select_rows df (\<lambda>r. py_str (cell (columns df) r c) = invoice_id)))
      | Plain (VList items) \<Rightarrow> Plain (VList (filter (item_matches invoice_id) items))
      | Plain _ \<Rightarrow> data)"

section \<open>SchetGenerator: finding invoices and filtering\<close>

text \<open>
  The fallback test of SchetGenerator, used when neither fixed column is there: the
  lower-cased name holds the Cyrillic word for invoice, or \<open>invoice\<close>.
\<close>

definition schet_is_invoice_key :: "pystr \<Rightarrow> bool" where
  "schet_is_invoice_key name =
     (py_in s_schet (py_lower name) \<or> py_in (ascii ''invoice'') (py_lower name))"

text \<open>
  \<open>data[data[c] == invoice_number]\<close>: the cell is compared with the string as it is.
  \<open>invoice_number\<close> is a \<open>str\<close>, and to a \<open>str\<close> only the same \<open>str\<close> is equal:
  a number, \<open>None\<close> or \<open>nan\<close> in the cell compares unequal.
\<close>

definition select_equal :: "dataframe \<Rightarrow> pystr \<Rightarrow> pystr \<Rightarrow> dataframe" where
  "select_equal df c invoice_number =
     select_rows df (\<lambda>r. cell (columns df) r c = VStr invoice_number)"

text \<open>\<open>SchetGenerator.filter_data_by_invoice\<close>\<close>

definition schet_filter_data_by_invoice :: "dataframe \<Rightarrow> pystr \<Rightarrow> dataframe" where
  "schet_filter_data_by_invoice df invoice_number =
     (if s_nomer_scheta \<in> set (columns df) then select_equal df s_nomer_scheta invoice_number
      else if ascii ''invoice_id'' \<in> set (columns df) then
        select_equal df (ascii ''invoice_id'') invoice_number
      else
        (case filter schet_is_invoice_key (columns df) of
           c # _ \<Rightarrow> select_equal df c invoice_number
         | [] \<Rightarrow> df))"

text \<open>
  The column both methods of SchetGenerator settle on. \<open>get_available_invoices\<close> and
  \<open>filter_data_by_invoice\<close> each run the same chain: the fixed Cyrillic column name if
  it is a column, else \<open>invoice_id\<close> if it is a column, else the first column that
  passes the fallback test.
\<close>

definition schet_invoice_column :: "pystr list \<Rightarrow> pystr option" where
  "schet_invoice_column cols =
     (if s_nomer_scheta \<in> set cols then Some s_nomer_scheta
      else if ascii ''invoice_id'' \<in> set cols then Some (ascii ''invoice_id'')
      else find schet_is_invoice_key cols)"

section \<open>Exceptions, messages and the outside world\<close>

text \<open>
  A call that can raise has an \<open>attempt\<close> as its value: what it returned, or the
  exception it raised. Of the exceptions only the class matters to the program:
  \<open>read_csv_file\<close> tells \<open>UnicodeDecodeError\<close> from every other \<open>Exception\<close>.
\<close>

datatype exn = UnicodeDecodeError | TypeError | AttributeError | ValueError | OtherException

datatype 'a attempt = Returned 'a | Raised exn

datatype encoding = Utf8 | Cp1251 | Latin1

text \<open>
  What the program prints, one constructor per \<open>print\<close> call of the methods modelled
  here; the texts themselves are Russian sentences with a mark in front.
\<close>

datatype message =
    CsvRead encoding
  | CsvReadIgnoringErrors
  | CsvReadError exn
  | JsonRead
  | JsonReadError exn
  | RenderError exn
  | PdfCreatedWeasyPrint pystr
  | WeasyPrintError
  | PdfCreatedReportLab pystr
  | ReportLabError
  | NoPdfLibrary
  | InstallOneOf
  | PipInstallWeasyprint
  | PipInstallReportlab

section \<open>Reading the data files\<close>





text \<open>
  \<open>PDFGenerator.read_json_file\<close>. \<open>json_load path\<close> is what opening the file and
  \<open>json.load\<close> do for a path. The list the method returns is given by its elements.
\<close>

definition read_json_file :: "(pystr \<Rightarrow> pyval attempt) \<Rightarrow> pystr \<Rightarrow> pyval list \<times> message list" where
  "read_json_file json_load file_path =
     (case json_load file_path of
        Returned data \<Rightarrow> ((case data of VList xs \<Rightarrow> xs | _ \<Rightarrow> [data]), [JsonRead])
      | Raised e \<Rightarrow> ([], [JsonReadError e]))"

section \<open>Choosing the PDF backend\<close>

text \<open>
  The files on disk and what has been printed so far. The two libraries are outside
  the program: each call is given by the files it leaves behind and by whether it
  returned (\<open>True\<close>) or raised. The flags are the module constants
  \<open>WEASYPRINT_AVAILABLE\<close> and \<open>REPORTLAB_AVAILABLE\<close>, set when the module is imported.
\<close>

record world =
  files :: "(pystr \<times> pystr) list"
  printed :: "message list"

record pdf_libraries =
  weasyprint_available :: bool
  reportlab_available :: bool
  weasy_write_pdf :: "pystr \<Rightarrow> pystr \<Rightarrow> (pystr \<times> pystr) list \<Rightarrow> (pystr \<times> pystr) list \<times> bool"
  reportlab_build :: "pydata \<Rightarrow> pystr \<Rightarrow> pystr \<Rightarrow> (pystr \<times> pystr) list \<Rightarrow> (pystr \<times> pystr) list \<times> bool"

text \<open>
  \<open>_generate_pdf_weasyprint\<close>: the library call in a \<open>try\<close>; \<open>True\<close> when it
  returns, \<open>False\<close> when it raises.
\<close>

definition generate_pdf_weasyprint ::
  "pdf_libraries \<Rightarrow> pystr \<Rightarrow> pystr \<Rightarrow> world \<Rightarrow> bool \<times> world" where
  "generate_pdf_weasyprint lib html_content output_path w =
     (case weasy_write_pdf lib html_content output_path (files w) of
        (fs, ok) \<Rightarrow>
          (ok, \<lparr>files = fs,
                printed = printed w @ [if ok then PdfCreatedWeasyPrint output_path else WeasyPrintError]\<rparr>))"

text \<open>
  \<open>_generate_pdf_reportlab\<close>: the whole layout, from the font search to \<open>doc.build\<close>,
  runs in one \<open>try\<close>; \<open>True\<close> when it gets through, \<open>False\<close> when any call raises.
  The layout itself is left to the library.
\<close>

definition generate_pdf_reportlab ::
  "pdf_libraries \<Rightarrow> pydata \<Rightarrow> pystr \<Rightarrow> pystr \<Rightarrow> world \<Rightarrow> bool \<times> world" where
  "generate_pdf_reportlab lib data invoice_id output_path w =
     (case reportlab_build lib data invoice_id output_path (files w) of
        (fs, ok) \<Rightarrow>
          (ok, \<lparr>files = fs,
                printed = printed w @ [if ok then PdfCreatedReportLab output_path else ReportLabError]\<rparr>))"

text \<open>\<open>generate_pdf\<close>, the same in both generators.\<close>

definition generate_pdf ::
  "pdf_libraries \<Rightarrow> pystr \<Rightarrow> pystr \<Rightarrow> pydata \<Rightarrow> pystr \<Rightarrow> world \<Rightarrow> bool \<times> world" where
  "generate_pdf lib html_content output_path data invoice_id w =
     (if weasyprint_available lib then generate_pdf_weasyprint lib html_content output_path w
      else if reportlab_available lib then
        generate_pdf_reportlab lib data invoice_id output_path w
      else
        (False, w\<lparr>printed := printed w
                    @ [NoPdfLibrary, InstallOneOf, PipInstallWeasyprint, PipInstallReportlab]\<rparr>))"

section \<open>The invoice counter\<close>

text \<open>
  The counter file \<open>invoice_counter.json\<close>: it is not there, or it cannot be opened
  or parsed, or it holds a JSON document. \<open>writable\<close> says whether opening it for
  writing succeeds.
\<close>

datatype counter_file = Missing | Unreadable | Holds pyval

record counter_store =
  content :: counter_file
  writable :: bool

definition s_prefix :: pystr where
  \<comment> \<open>U+0421 U+0427 and a hyphen\<close>
  "s_prefix = [1057, 1063, 45]"

text \<open>The first half of the \<open>try\<close> block: \<open>counter\<close> as read, or the exception.\<close>

definition read_counter :: "counter_file \<Rightarrow> pyval attempt" where
  "read_counter f =
     (case f of
        Missing \<Rightarrow> Returned (VInt 0)
      | Unreadable \<Rightarrow> Raised OtherException
      | Holds (VDict d) \<Rightarrow>
          Returned (case map_of d (ascii ''counter'') of Some v \<Rightarrow> v | None \<Rightarrow> VInt 0)
      | Holds _ \<Rightarrow> Raised AttributeError)"

text \<open>
  \<open>counter += 1\<close>: an integer or a boolean gives an integer, \<open>nan\<close> stays \<open>nan\<close>,
  every other value raises \<open>TypeError\<close>.
\<close>

definition add_one :: "pyval \<Rightarrow> pyval attempt" where
  "add_one v =
     (case v of
        VInt n \<Rightarrow> Returned (VInt (n + 1))
      | VBool b \<Rightarrow> Returned (VInt (if b then 2 else 1))
      | VNaN \<Rightarrow> Returned VNaN
      | _ \<Rightarrow> Raised TypeError)"

text \<open>
  The format \<open>03d\<close>: the decimal digits, filled with zeros on the left up to a width
  of three, the sign counted in the width. It raises \<open>ValueError\<close> for \<open>nan\<close>.
\<close>

definition zfill :: "nat \<Rightarrow> pystr \<Rightarrow> pystr" where
  "zfill w s = replicate (w - length s) 48 @ s"

definition format_03d :: "int \<Rightarrow> pystr" where
  "format_03d n = (if n < 0 then 45 # zfill 2 (dec (nat (- n))) else zfill 3 (dec (nat n)))"

text \<open>
  \<open>get_next_invoice_number\<close>. \<open>stamp\<close> is the clock read in the \<open>except\<close> branch,
  as \<open>now.strftime('%Y%m%d%H%M')\<close> prints it. The result is the number and the
  store after the call; the warning that the \<open>except\<close> branch prints is not recorded.
  The file is written before the number is formatted, so a counter that cannot be
  formatted (\<open>nan\<close>) is stored all the same.
\<close>

definition get_next_invoice_number :: "pystr \<Rightarrow> counter_store \<Rightarrow> pystr \<times> counter_store" where
  "get_next_invoice_number stamp st =
     (case read_counter (content st) of
        Raised e \<Rightarrow> (s_prefix @ stamp, st)
      | Returned counter \<Rightarrow>
          (case add_one counter of
             Raised e \<Rightarrow> (s_prefix @ stamp, st)
           | Returned counter' \<Rightarrow>
               if \<not> writable st then (s_prefix @ stamp, st)
               else
                 (let st' = st\<lparr>content := Holds (VDict [(ascii ''counter'', counter')])\<rparr>
                  in case counter' of
                       VInt n \<Rightarrow> (s_prefix @ format_03d n, st')
                     | _ \<Rightarrow> (s_prefix @ stamp, st'))))"

section \<open>SchetGenerator: a new invoice\<close>

text \<open>The Cyrillic field names and the status text of a new invoice, by code point.\<close>

definition s_data :: pystr where
  \<comment> \<open>"date": U+0434 U+0430 U+0442 U+0430\<close>
  "s_data = [1076, 1072, 1090, 1072]"

definition s_klient :: pystr where
  \<comment> \<open>"customer": U+043A U+043B U+0438 U+0435 U+043D U+0442\<close>
  "s_klient = [1082, 1083, 1080, 1077, 1085, 1090]"

definition s_tovar :: pystr where
  \<comment> \<open>"item": U+0442 U+043E U+0432 U+0430 U+0440\<close>
  "s_tovar = [1090, 1086, 1074, 1072, 1088]"

definition s_kolichestvo :: pystr where
  \<comment> \<open>"quantity"\<close>
  "s_kolichestvo = [1082, 1086, 1083, 1080, 1095, 1077, 1089, 1090, 1074, 1086]"

definition s_cena :: pystr where
  \<comment> \<open>"price per unit", three words joined by underscores\<close>
  "s_cena = [1094, 1077, 1085, 1072, 95, 1079, 1072, 95, 1077, 1076, 1080, 1085, 1080, 1094, 1091]"

definition s_summa :: pystr where
  \<comment> \<open>"total sum", two words joined by an underscore\<close>
  "s_summa = [1086, 1073, 1097, 1072, 1103, 95, 1089, 1091, 1084, 1084, 1072]"

definition s_status :: pystr where
  \<comment> \<open>"status"\<close>
  "s_status = [1089, 1090, 1072, 1090, 1091, 1089]"

definition s_wait :: pystr where
  \<comment> \<open>"awaiting payment", two words\<close>
  "s_wait = [1054, 1078, 1080, 1076, 1072, 1077, 1090, 32, 1086, 1087, 1083, 1072, 1090, 1099]"

text \<open>\<open>d.get(k, fallback)\<close> on a dict.\<close>

definition dict_get :: "(pystr \<times> pyval) list \<Rightarrow> pystr \<Rightarrow> pyval \<Rightarrow> pyval" where
  "dict_get d k fallback = (case map_of d k of Some v \<Rightarrow> v | None \<Rightarrow> fallback)"

text \<open>
  The operator \<open>*\<close>. Integers and booleans multiply as integers; a string or a list
  times an integer is that many copies of it; \<open>nan\<close> times a number is \<open>nan\<close>; every
  other pair raises \<open>TypeError\<close>.
\<close>

definition as_int :: "pyval \<Rightarrow> int option" where
  "as_int v = (case v of VInt i \<Rightarrow> Some i | VBool b \<Rightarrow> Some (if b then 1 else 0) | _ \<Rightarrow> None)"

definition times_int :: "int \<Rightarrow> pyval \<Rightarrow> pyval attempt" where
  "times_int n v =
     (case v of
        VStr s \<Rightarrow> Returned (VStr (concat (replicate (nat n) s)))
      | VList xs \<Rightarrow> Returned (VList (concat (replicate (nat n) xs)))
      | VNaN \<Rightarrow> Returned VNaN
      | _ \<Rightarrow> Raised TypeError)"

definition py_mul :: "pyval \<Rightarrow> pyval \<Rightarrow> pyval attempt" where
  "py_mul a b =
     (case (as_int a, as_int b) of
        (Some x, Some y) \<Rightarrow> Returned (VInt (x * y))
      | (Some n, None) \<Rightarrow> times_int n b
      | (None, Some n) \<Rightarrow> times_int n a
      | (None, None) \<Rightarrow> (if a = VNaN \<and> b = VNaN then Returned VNaN else Raised TypeError))"

text \<open>
  The dict appended for one item. \<open>today\<close> is the clock read for this item, as
  \<open>datetime.now().strftime('%Y-%m-%d')\<close> prints it.
\<close>

definition invoice_record ::
  "pystr \<Rightarrow> pystr \<Rightarrow> pystr \<Rightarrow> (pystr \<times> pyval) list \<Rightarrow> (pystr \<times> pyval) list attempt" where
  "invoice_record invoice_number today customer_name item =
     (case py_mul (dict_get item s_kolichestvo (VInt 1)) (dict_get item s_cena (VInt 0)) of
        Raised e \<Rightarrow> Raised e
      | Returned line_total \<Rightarrow>
          Returned
            [(s_nomer_scheta, VStr invoice_number),
             (s_data, VStr today),
             (s_klient, VStr customer_name),
             (s_tovar, dict_get item s_tovar (VStr [])),
             (s_kolichestvo, dict_get item s_kolichestvo (VInt 1)),
             (s_cena, dict_get item s_cena (VInt 0)),
             (s_summa, line_total),
             (s_status, VStr s_wait)])"

text \<open>
  The loop \<open>for i, item in enumerate(items)\<close>. The clock is read anew for every
  item: \<open>dates i\<close> is its reading when item \<open>i\<close> is appended. An exception of \<open>*\<close>
  ends the loop and leaves the method.
\<close>

fun invoice_data ::
  "pystr \<Rightarrow> (nat \<Rightarrow> pystr) \<Rightarrow> pystr \<Rightarrow> nat \<Rightarrow> (pystr \<times> pyval) list list
     \<Rightarrow> (pystr \<times> pyval) list list attempt" where
  "invoice_data invoice_number dates customer_name i [] = Returned []"
| "invoice_data invoice_number dates customer_name i (item # items) =
     (case invoice_record invoice_number (dates i) customer_name item of
        Raised e \<Rightarrow> Raised e
      | Returned r \<Rightarrow>
          (case invoice_data invoice_number dates customer_name (Suc i) items of
             Raised e \<Rightarrow> Raised e
           | Returned rs \<Rightarrow> Returned (r # rs)))"

text \<open>
  \<open>pd.DataFrame(list of dicts)\<close>: the columns are the keys in the order in which they
  first occur, and a record without a key has \<open>nan\<close> in that column.
\<close>

definition frame_of_records :: "(pystr \<times> pyval) list list \<Rightarrow> dataframe" where
  "frame_of_records ds =
     (let cols = rev (remdups (rev (concat (map (map fst) ds))))
      in \<lparr>columns = cols, rows = map (\<lambda>d. map (\<lambda>c. dict_get d c VNaN) cols) ds\<rparr>)"

text \<open>
  The first part of \<open>generate_new_invoice\<close>, up to \<open>data = pd.DataFrame(invoice_data)\<close>:
  the next number is taken from the counter, then the records are built. The value
  is the dataset, or the exception that left the method, and the counter store after
  the call.
\<close>

definition new_invoice_data ::
  "pystr \<Rightarrow> (nat \<Rightarrow> pystr) \<Rightarrow> counter_store \<Rightarrow> pystr \<Rightarrow> (pystr \<times> pyval) list list
     \<Rightarrow> dataframe attempt \<times> counter_store" where
  "new_invoice_data stamp dates st customer_name items =
     (case get_next_invoice_number stamp st of
        (invoice_number, st') \<Rightarrow>
          (case invoice_data invoice_number dates customer_name 0 items of
             Raised e \<Rightarrow> (Raised e, st')
           | Returned records \<Rightarrow> (Returned (frame_of_records records), st')))"

text \<open>The columns of the dataset of a new invoice: the keys of its records, in order.\<close>

definition invoice_columns :: "pystr list" where
  "invoice_columns = [s_nomer_scheta, s_data, s_klient, s_tovar, s_kolichestvo, s_cena, s_summa, s_status]"

section \<open>SchetGenerator: listing the invoices\<close>

text \<open>
  \<open>Series.unique()\<close>: the values in the order of their first occurrence. pandas finds
  repeats through a hash table, so a list or a dict in a cell raises \<open>TypeError\<close>;
  equal numbers count as one value (\<open>1\<close> and \<open>True\<close>), and so do two \<open>nan\<close>.
\<close>

definition hashable :: "pyval \<Rightarrow> bool" where
  "hashable v = (case v of VList _ \<Rightarrow> False | VDict _ \<Rightarrow> False | _ \<Rightarrow> True)"

definition same_key :: "pyval \<Rightarrow> pyval \<Rightarrow> bool" where
  "same_key a b = (case (as_int a, as_int b) of (Some x, Some y) \<Rightarrow> x = y | _ \<Rightarrow> a = b)"

fun first_of_each :: "pyval list \<Rightarrow> pyval list" where
  "first_of_each [] = []"
| "first_of_each (x # xs) = x # first_of_each (filter (\<lambda>y. \<not> same_key x y) xs)"

definition py_unique :: "pyval list \<Rightarrow> pyval list attempt" where
  "py_unique vs = (if list_all hashable vs then Returned (first_of_each vs) else Raised TypeError)"

text \<open>
  \<open>a < b\<close> as \<open>sorted\<close> asks it of two such values: strings compare as strings,
  numbers as numbers, a comparison with \<open>nan\<close> is false, and every other pair raises
  \<open>TypeError\<close>.
\<close>

definition py_lt :: "pyval \<Rightarrow> pyval \<Rightarrow> bool attempt" where
  "py_lt a b =
     (case (a, b) of
        (VStr x, VStr y) \<Rightarrow> Returned (x < y)
      | _ \<Rightarrow>
        (case (as_int a, as_int b) of
           (Some x, Some y) \<Rightarrow> Returned (x < y)
         | (Some x, None) \<Rightarrow> (if b = VNaN then Returned False else Raised TypeError)
         | (None, Some y) \<Rightarrow> (if a = VNaN then Returned False else Raised TypeError)
         | (None, None) \<Rightarrow> (if a = VNaN \<and> b = VNaN then Returned False else Raised TypeError)))"

text \<open>
  \<open>sorted(values)\<close>, as an insertion sort that asks \<open>py_lt\<close> and passes on its
  exception. On values that \<open>py_lt\<close> orders totally this is the sorted list; a list
  that mixes strings with numbers, or holds \<open>None\<close> beside anything, raises whatever
  the order of the comparisons. Where \<open>nan\<close> stands among numbers Python's own
  result depends on its merge strategy, and only the elements of the result are meant.
\<close>

fun py_insort :: "pyval \<Rightarrow> pyval list \<Rightarrow> pyval list attempt" where
  "py_insort x [] = Returned [x]"
| "py_insort x (y # ys) =
     (case py_lt y x of
        Raised e \<Rightarrow> Raised e
      | Returned True \<Rightarrow>
          (case py_insort x ys of Raised e \<Rightarrow> Raised e | Returned zs \<Rightarrow> Returned (y # zs))
      | Returned False \<Rightarrow> Returned (x # y # ys))"

fun py_sorted :: "pyval list \<Rightarrow> pyval list attempt" where
  "py_sorted [] = Returned []"
| "py_sorted (x # xs) =
     (case py_sorted xs of Raised e \<Rightarrow> Raised e | Returned ys \<Rightarrow> py_insort x ys)"

text \<open>\<open>sorted(data[c].unique())\<close>\<close>

definition sorted_unique :: "dataframe \<Rightarrow> pystr \<Rightarrow> pyval list attempt" where
  "sorted_unique df c =
     (case py_unique (column df c) of Raised e \<Rightarrow> Raised e | Returned vs \<Rightarrow> py_sorted vs)"

text \<open>\<open>SchetGenerator.get_available_invoices\<close>\<close>

definition schet_get_available_invoices :: "dataframe \<Rightarrow> pyval list attempt" where
  "schet_get_available_invoices df =
     (if s_nomer_scheta \<in> set (columns df) then sorted_unique df s_nomer_scheta
      else if ascii ''invoice_id'' \<in> set (columns df) then sorted_unique df (ascii ''invoice_id'')
      else
        (case filter schet_is_invoice_key (columns df) of
           c # _ \<Rightarrow> sorted_unique df c
         | [] \<Rightarrow> Returned []))"

section \<open>The resolver of the specification\<close>

text \<open>
  The resolver as the specification words it: the field names are those of the table,
  or the keys of a representative record of a list (its first); a name passes when its
  lower-cased form holds \<open>invoice\<close>, the Cyrillic word for invoice, or \<open>id\<close>; the first
  passing name in declaration order is the key of the whole dataset; every record's
  value under that key is coerced to a string, and the strings are returned as a sorted
  set.
\<close>

definition spec_is_invoice_key :: "pystr \<Rightarrow> bool" where
  "spec_is_invoice_key name =
     (py_in (ascii ''invoice'') (py_lower name) \<or> py_in s_schet (py_lower name)
      \<or> py_in (ascii ''id'') (py_lower name))"

definition spec_field_names :: "pydata \<Rightarrow> pystr list" where
  "spec_field_names data =
     (case data of
        Frame df \<Rightarrow> columns df
      | Plain (VList (VDict d # _)) \<Rightarrow> map fst d
      | _ \<Rightarrow> [])"

definition spec_key :: "pydata \<Rightarrow> pystr option" where
  "spec_key data = find spec_is_invoice_key (spec_field_names data)"

definition spec_values :: "pydata \<Rightarrow> pystr \<Rightarrow> pystr list" where
  "spec_values data k =
     (case data of
        Frame df \<Rightarrow> map py_str (column df k)
      | Plain (VList items) \<Rightarrow>
          concat (map (\<lambda>item. case item of
                                 VDict d \<Rightarrow> (case map_of d k of Some v \<Rightarrow> [py_str v] | None \<Rightarrow> [])
                               | _ \<Rightarrow> []) items)
      | _ \<Rightarrow> [])"

definition spec_resolve_invoices :: "pydata \<Rightarrow> pystr list" where
  "spec_resolve_invoices data =
     (case spec_key data of None \<Rightarrow> [] | Some k \<Rightarrow> sort (remdups (spec_values data k)))"

text \<open>The key a record of a list is read under: the first of its own keys that passes.\<close>

definition own_key :: "(pystr \<times> pyval) list \<Rightarrow> pystr option" where
  "own_key d = find is_invoice_key (map fst d)"

section \<open>Rendering a template\<close>



text \<open>
  A template seen as a row of pieces: stretches of text and placeholders. A text is
  calm when it has no two opening braces in a row and does not end in an opening
  brace; a name is plain when it has no brace.
\<close>

datatype piece = Text pystr | Slot pystr



definition calm :: "pystr \<Rightarrow> bool" where
  "calm t = (\<not> py_in [123, 123] t \<and> (t = [] \<or> last t \<noteq> 123))"



definition fill :: "pystr \<Rightarrow> pystr \<Rightarrow> piece \<Rightarrow> piece" where
  "fill a new p = (if p = Slot a then Text new else p)"


section \<open>PDFGenerator: rendering\<close>

text \<open>The style sheet \<open>PDFGenerator.__init__\<close> stores in \<open>self.css_styles\<close>, line by line.\<close>

definition pdf_css_styles :: pystr where
  "pdf_css_styles =
     join [10]
     [ascii '''',
      ascii ''        @page {'',
      ascii ''            size: A4;'',
      ascii ''            margin: 2cm;'',
      ascii ''        }'',
      ascii ''        '',
      ascii ''        body {'',
      ascii ''            font-family: '' @ [39] @ ascii ''DejaVu Sans'' @ [39] @ ascii '', '' @ [39] @ ascii ''Roboto'' @ [39] @ ascii '', Arial, sans-serif;'',
      ascii ''            font-size: 12px;'',
      ascii ''            line-height: 1.4;'',
      ascii ''            color: #333;'',
      ascii ''        }'',
      ascii ''        '',
      ascii ''        .header {'',
      ascii ''            text-align: center;'',
      ascii ''            margin-bottom: 30px;'',
      ascii ''            border-bottom: 2px solid #333;'',
      ascii ''            padding-bottom: 20px;'',
      ascii ''        }'',
      ascii ''        '',
      ascii ''        .invoice-info {'',
      ascii ''            margin-bottom: 20px;'',
      ascii ''        }'',
      ascii ''        '',
      ascii ''        .items-table {'',
      ascii ''            width: 100%;'',
      ascii ''            border-collapse: collapse;'',
      ascii ''            margin-top: 20px;'',
      ascii ''        }'',
      ascii ''        '',
      ascii ''        .items-table th,'',
      ascii ''        .items-table td {'',
      ascii ''            border: 1px solid #ddd;'',
      ascii ''            padding: 8px;'',
      ascii ''            text-align: left;'',
      ascii ''        }'',
      ascii ''        '',
      ascii ''        .items-table th {'',
      ascii ''            background-color: #f5f5f5;'',
      ascii ''            font-weight: bold;'',
      ascii ''        }'',
      ascii ''        '',
      ascii ''        .total {'',
      ascii ''            text-align: right;'',
      ascii ''            font-weight: bold;'',
      ascii ''            font-size: 14px;'',
      ascii ''            margin-top: 20px;'',
      ascii ''        }'',
      ascii ''        '']"

text \<open>The style sheet \<open>SchetGenerator.__init__\<close> stores in \<open>self.css_styles\<close>.\<close>

definition schet_css_styles :: pystr where
  "schet_css_styles =
     join [10]
     [ascii '''',
      ascii ''        @page {'',
      ascii ''            size: A4;'',
      ascii ''            margin: 2cm;'',
      ascii ''        }'',
      ascii ''        '',
      ascii ''        body {'',
      ascii ''            font-family: '' @ [39] @ ascii ''DejaVu Sans'' @ [39] @ ascii '', '' @ [39] @ ascii ''Roboto'' @ [39] @ ascii '', Arial, sans-serif;'',
      ascii ''            font-size: 12px;'',
      ascii ''            line-height: 1.4;'',
      ascii ''            color: #333;'',
      ascii ''        }'',
      ascii ''        '']"

text \<open>
  What rendering asks of the outside. \<open>read_text path\<close> is what opening and reading
  the template does. For PDFGenerator, \<open>to_html df\<close> is
  \<open>df.to_html(index=False, classes='items-table', escape=False)\<close> and
  \<open>new_frame items\<close> is \<open>pd.DataFrame(items)\<close> for a list. For SchetGenerator,
  \<open>today k\<close> is the clock at its reading number \<open>k\<close> within the call, printed as
  \<open>strftime('%Y-%m-%d')\<close>; \<open>series_sum\<close> is \<open>Series.sum()\<close>; \<open>format_money v\<close> is
  the format \<open>,.2f\<close> applied to \<open>v\<close>; \<open>plus_ten_days s\<close> parses \<open>s\<close> as a date, adds
  ten days and prints the result, and raises when \<open>s\<close> does not parse.
\<close>

record render_library =
  read_text :: "pystr \<Rightarrow> pystr attempt"
  to_html :: "dataframe \<Rightarrow> pystr attempt"
  new_frame :: "pyval list \<Rightarrow> dataframe attempt"
  today :: "nat \<Rightarrow> pystr"
  series_sum :: "pyval list \<Rightarrow> pyval"
  format_money :: "pyval \<Rightarrow> pystr attempt"
  plus_ten_days :: "pystr \<Rightarrow> pystr attempt"








section \<open>SchetGenerator: rendering\<close>












text \<open>The markup of the table: a head row of \<open>th\<close> cells and one \<open>tr\<close> of \<open>td\<close> cells per row.\<close>

definition table_markup :: "pystr list \<Rightarrow> pystr list list \<Rightarrow> pystr" where
  "table_markup header body =
     ascii ''<table class='' @ [34] @ ascii ''items-table'' @ [34] @ ascii ''>''
     @ ascii ''<thead><tr>''
     @ concat (map (\<lambda>h. ascii ''<th>'' @ h @ ascii ''</th>'') header)
     @ ascii ''</tr></thead>''
     @ ascii ''<tbody>''
     @ concat (map (\<lambda>row. ascii ''<tr>''
                             @ concat (map (\<lambda>c. ascii ''<td>'' @ c @ ascii ''</td>'') row)
                             @ ascii ''</tr>'') body)
     @ ascii ''</tbody>''
     @ ascii ''</table>''"



section \<open>Sample data\<close>

text \<open>
  A table as \<open>read_csv\<close> gives it for a file whose invoice ids are numbers:
  the header \<open>invoice_id,total\<close> and the lines \<open>7,100\<close> and \<open>8,50\<close>.
\<close>

definition ex_numbered :: dataframe where
  "ex_numbered =
     \<lparr>columns = [ascii ''invoice_id'', ascii ''total''],
      rows = [[VInt 7, VInt 100], [VInt 8, VInt 50]]\<rparr>"

text \<open>
  The table of the header \<open>invoice_id,customer,item,total\<close> with two lines of the
  invoice \<open>INV-1\<close> and one of \<open>INV-2\<close>.
\<close>

definition ex_orders :: dataframe where
  "ex_orders =
     \<lparr>columns = [ascii ''invoice_id'', ascii ''customer'', ascii ''item'', ascii ''total''],
      rows = [[VStr (ascii ''INV-1''), VStr (ascii ''Ann''), VStr (ascii ''pen''), VInt 5],
              [VStr (ascii ''INV-1''), VStr (ascii ''Ann''), VStr (ascii ''ink''), VInt 9],
              [VStr (ascii ''INV-2''), VStr (ascii ''Bob''), VStr (ascii ''cup''), VInt 3]]\<rparr>"

text \<open>A JSON list whose only record has no key with \<open>invoice\<close> or \<open>id\<close> in it.\<close>

definition ex_keyless :: pyval where
  "ex_keyless = VList [VDict [(ascii ''name'', VStr (ascii ''Ann'')), (ascii ''total'', VInt 5)]]"





definition ex_json_object :: "pystr \<Rightarrow> pyval attempt" where
  "ex_json_object path = Returned (VDict [(ascii ''id'', VInt 7), (ascii ''total'', VInt 100)])"

definition ex_json_list :: "pystr \<Rightarrow> pyval attempt" where
  "ex_json_list path = Returned ex_keyless"

text \<open>Installations with no PDF library, with both, and with ReportLab alone; a disk
  that holds one template.\<close>

definition ex_no_backend :: pdf_libraries where
  "ex_no_backend =
     \<lparr>weasyprint_available = False, reportlab_available = False,
      weasy_write_pdf = (\<lambda>html out fs. (fs, False)),
      reportlab_build = (\<lambda>data invoice_id out fs. (fs, False))\<rparr>"

definition ex_both_backends :: pdf_libraries where
  "ex_both_backends =
     \<lparr>weasyprint_available = True, reportlab_available = True,
      weasy_write_pdf = (\<lambda>html out fs. ((out, html) # fs, True)),
      reportlab_build = (\<lambda>data invoice_id out fs. ((out, invoice_id) # fs, True))\<rparr>"

definition ex_reportlab_only :: pdf_libraries where
  "ex_reportlab_only = ex_both_backends\<lparr>weasyprint_available := False\<rparr>"

definition ex_world :: world where
  "ex_world = \<lparr>files = [(ascii ''templates/invoice.html'', ascii ''<h1>{{invoice_id}}</h1>'')], printed = []\<rparr>"

text \<open>The counter before the first invoice, and after invoice 999.\<close>

definition ex_fresh_store :: counter_store where
  "ex_fresh_store = \<lparr>content = Missing, writable = True\<rparr>"

definition ex_store_999 :: counter_store where
  "ex_store_999 = \<lparr>content = Holds (VDict [(ascii ''counter'', VInt 999)]), writable = True\<rparr>"

text \<open>
  The items of a new invoice for the customer \<open>Test Ltd\<close>: a printer, three
  cartridges, and a delivery entered without quantity or price. A clock that shows
  the same day at every reading, and one that passes midnight after the first.
\<close>

definition ex_items :: "(pystr \<times> pyval) list list" where
  "ex_items =
     [[(s_tovar, VStr (ascii ''printer'')), (s_kolichestvo, VInt 1), (s_cena, VInt 25000)],
      [(s_tovar, VStr (ascii ''cartridge'')), (s_kolichestvo, VInt 3), (s_cena, VInt 3000)],
      [(s_tovar, VStr (ascii ''delivery''))]]"

definition ex_same_day :: "nat \<Rightarrow> pystr" where
  "ex_same_day i = ascii ''2024-05-17''"

definition ex_midnight :: "nat \<Rightarrow> pystr" where
  "ex_midnight i = (if i = 0 then ascii ''2024-12-31'' else ascii ''2025-01-01'')"

text \<open>The datasets built from these items on the first invoice, under either clock.\<close>

definition ex_new_invoice :: dataframe where
  "ex_new_invoice =
     \<lparr>columns = [s_nomer_scheta, s_data, s_klient, s_tovar, s_kolichestvo, s_cena, s_summa, s_status],
      rows =
        [[VStr (s_prefix @ ascii ''001''), VStr (ascii ''2024-05-17''), VStr (ascii ''Test Ltd''),
          VStr (ascii ''printer''), VInt 1, VInt 25000, VInt 25000, VStr s_wait],
         [VStr (s_prefix @ ascii ''001''), VStr (ascii ''2024-05-17''), VStr (ascii ''Test Ltd''),
          VStr (ascii ''cartridge''), VInt 3, VInt 3000, VInt 9000, VStr s_wait],
         [VStr (s_prefix @ ascii ''001''), VStr (ascii ''2024-05-17''), VStr (ascii ''Test Ltd''),
          VStr (ascii ''delivery''), VInt 1, VInt 0, VInt 0, VStr s_wait]]\<rparr>"

definition ex_midnight_invoice :: dataframe where
  "ex_midnight_invoice =
     \<lparr>columns = [s_nomer_scheta, s_data, s_klient, s_tovar, s_kolichestvo, s_cena, s_summa, s_status],
      rows =
        [[VStr (s_prefix @ ascii ''001''), VStr (ascii ''2024-12-31''), VStr (ascii ''Test Ltd''),
          VStr (ascii ''printer''), VInt 1, VInt 25000, VInt 25000, VStr s_wait],
         [VStr (s_prefix @ ascii ''001''), VStr (ascii ''2025-01-01''), VStr (ascii ''Test Ltd''),
          VStr (ascii ''cartridge''), VInt 3, VInt 3000, VInt 9000, VStr s_wait],
         [VStr (s_prefix @ ascii ''001''), VStr (ascii ''2025-01-01''), VStr (ascii ''Test Ltd''),
          VStr (ascii ''delivery''), VInt 1, VInt 0, VInt 0, VStr s_wait]]\<rparr>"

subsection \<open>Datasets for the key\<close>

text \<open>
  A JSON list of two records of the customer \<open>C7\<close> whose keys come in different
  orders; a table whose id column has the bare Cyrillic name; a table whose id column
  is called \<open>id\<close>; column names with \<open>invoice_ref\<close> ahead of the fixed Cyrillic name.
\<close>

definition ex_mixed_keys :: pyval where
  "ex_mixed_keys =
     VList [VDict [(ascii ''invoice_id'', VStr (ascii ''INV-1'')), (ascii ''customer_id'', VStr (ascii ''C7''))],
            VDict [(ascii ''customer_id'', VStr (ascii ''C7'')), (ascii ''invoice_id'', VStr (ascii ''INV-2''))]]"

definition ex_cyrillic :: dataframe where
  "ex_cyrillic = \<lparr>columns = [s_schet, ascii ''total''], rows = [[VStr (ascii ''A-1''), VInt 5]]\<rparr>"

definition ex_plain_id :: dataframe where
  "ex_plain_id = \<lparr>columns = [ascii ''id'', ascii ''total''], rows = [[VStr (ascii ''A-1''), VInt 5]]\<rparr>"

definition ex_two_names :: "pystr list" where
  "ex_two_names = [ascii ''invoice_ref'', s_nomer_scheta]"

subsection \<open>Templates and a stand-in library\<close>










section \<open>Properties: listing and filtering\<close>

lemmas string_evals =
  py_lower_def lower_cp_def py_str_def str_int_def dec.simps s_schet_def s_nomer_scheta_def

lemma columns_select_rows [simp]: "columns (select_rows df keep) = columns df"
  by (simp add: select_rows_def)

lemma rows_select_rows [simp]: "rows (select_rows df keep) = filter keep (rows df)"
  by (simp add: select_rows_def)


lemma find_holds: "find P xs = Some x \<Longrightarrow> P x"
  by (auto simp: find_Some_iff)

lemma find_filter_hd:
  "find P xs = Some c \<Longrightarrow> \<exists>cs. filter P xs = c # cs"
  by (induction xs) (auto split: if_splits)

lemma find_None_filter:
  "find P xs = None \<Longrightarrow> filter P xs = []"
  by (induction xs) (auto split: if_splits)

text \<open>
  The loop over the keys of a record, read as a lookup: the record's first key that
  passes the test, and \<open>str\<close> of the value stored under it.
\<close>

lemma item_invoice_find:
  "item_invoice d =
     (case find is_invoice_key (map fst d) of
        None \<Rightarrow> None
      | Some k \<Rightarrow> map_option py_str (map_of d k))"
  by (induction d rule: item_invoice.induct) (auto split: option.splits dest: find_holds)







subsection \<open>Which records the filter keeps\<close>

lemma pdf_frame_filter:
  assumes "find is_invoice_key (columns df) = Some c"
  shows "filter_data_by_invoice (Frame df) i
           = Frame (df\<lparr>rows := filter (\<lambda>r. py_str (cell (columns df) r c) = i) (rows df)\<rparr>)"
proof -
  from find_filter_hd [OF assms] obtain cs where "filter is_invoice_key (columns df) = c # cs" ..
  then show ?thesis by (simp add: filter_data_by_invoice_def select_rows_def)
qed

lemma pdf_list_filter:
  "filter_data_by_invoice (Plain (VList items)) i
     = Plain (VList (filter (\<lambda>item. case item of
          VDict d \<Rightarrow>
            (case find is_invoice_key (map fst d) of
               Some k \<Rightarrow> map_option py_str (map_of d k) = Some i
             | None \<Rightarrow> False)
        | _ \<Rightarrow> False) items))"
proof -
  have "item_matches i = (\<lambda>item. case item of
          VDict d \<Rightarrow>
            (case find is_invoice_key (map fst d) of
               Some k \<Rightarrow> map_option py_str (map_of d k) = Some i
             | None \<Rightarrow> False)
        | _ \<Rightarrow> False)"
    by (rule ext) (simp add: item_matches_def item_invoice_find split: pyval.splits option.splits)
  then show ?thesis by (simp add: filter_data_by_invoice_def)
qed

lemma schet_frame_filter:
  assumes "schet_invoice_column (columns df) = Some c"
  shows "schet_filter_data_by_invoice df i
           = df\<lparr>rows := filter (\<lambda>r. cell (columns df) r c = VStr i) (rows df)\<rparr>"
proof (cases "s_nomer_scheta \<in> set (columns df)")
  case True
  with assms show ?thesis
    by (simp add: schet_invoice_column_def schet_filter_data_by_invoice_def select_equal_def select_rows_def)
next
  case F1: False
  show ?thesis
  proof (cases "ascii ''invoice_id'' \<in> set (columns df)")
    case True
    with F1 assms show ?thesis
      by (simp add: schet_invoice_column_def schet_filter_data_by_invoice_def select_equal_def select_rows_def)
  next
    case False
    with F1 assms have "find schet_is_invoice_key (columns df) = Some c"
      by (simp add: schet_invoice_column_def)
    from find_filter_hd [OF this] obtain cs where "filter schet_is_invoice_key (columns df) = c # cs" ..
    with F1 False show ?thesis
      by (simp add: schet_filter_data_by_invoice_def select_equal_def select_rows_def)
  qed
qed

text \<open>
  C4, as the code has it. PDFGenerator keeps exactly the records whose value under the
  key, coerced with \<open>str\<close>, is the id that was asked for: in a table the key is the
  first column that passes the test, in a list each record is read under its own first
  passing key. SchetGenerator does not coerce: it keeps exactly the rows whose cell
  under its invoice column is that very string, so a cell holding a number is never
  kept. No text is normalised in either.
\<close>

theorem filter_keeps_matching_records:
  "(find is_invoice_key (columns df) = Some c \<longrightarrow>
      filter_data_by_invoice (Frame df) i
        = Frame (df\<lparr>rows := filter (\<lambda>r. py_str (cell (columns df) r c) = i) (rows df)\<rparr>))
   \<and> filter_data_by_invoice (Plain (VList items)) i
        = Plain (VList (filter (\<lambda>item. case item of
            VDict d \<Rightarrow>
              (case find is_invoice_key (map fst d) of
                 Some k \<Rightarrow> map_option py_str (map_of d k) = Some i
               | None \<Rightarrow> False)
          | _ \<Rightarrow> False) items))
   \<and> (schet_invoice_column (columns df) = Some c' \<longrightarrow>
        schet_filter_data_by_invoice df i
          = df\<lparr>rows := filter (\<lambda>r. cell (columns df) r c' = VStr i) (rows df)\<rparr>)"
  using pdf_frame_filter [of df c i] pdf_list_filter [of items i] schet_frame_filter [of df c' i]
  by blast

theorem filter_keeps_matching_records_witness:
  "find is_invoice_key (columns ex_orders) = Some (ascii ''invoice_id'')
   \<and> filter_data_by_invoice (Frame ex_orders) (ascii ''INV-1'')
       = Frame (ex_orders\<lparr>rows := [[VStr (ascii ''INV-1''), VStr (ascii ''Ann''), VStr (ascii ''pen''), VInt 5],
                                   [VStr (ascii ''INV-1''), VStr (ascii ''Ann''), VStr (ascii ''ink''), VInt 9]]\<rparr>)
   \<and> schet_invoice_column (columns ex_orders) = Some (ascii ''invoice_id'')
   \<and> schet_filter_data_by_invoice ex_orders (ascii ''INV-1'')
       = ex_orders\<lparr>rows := [[VStr (ascii ''INV-1''), VStr (ascii ''Ann''), VStr (ascii ''pen''), VInt 5],
                            [VStr (ascii ''INV-1''), VStr (ascii ''Ann''), VStr (ascii ''ink''), VInt 9]]\<rparr>"
  using filter_keeps_matching_records
    [of ex_orders "ascii ''invoice_id''" "ascii ''INV-1''" "[]" "ascii ''invoice_id''"]
  by (simp add: ex_orders_def is_invoice_key_def schet_invoice_column_def cell_def string_evals)

text \<open>
  The claim as it was stated fails for SchetGenerator: in the table of numbered
  invoices the first row's id reads \<open>7\<close> under \<open>str\<close>, and filtering for \<open>7\<close> keeps
  no row.
\<close>

theorem schet_filter_no_coercion_counterexample:
  "schet_invoice_column (columns ex_numbered) = Some (ascii ''invoice_id'')
   \<and> [VInt 7, VInt 100] \<in> set (rows ex_numbered)
   \<and> py_str (cell (columns ex_numbered) [VInt 7, VInt 100] (ascii ''invoice_id'')) = ascii ''7''
   \<and> rows (schet_filter_data_by_invoice ex_numbered (ascii ''7'')) = []"
  by (simp add: ex_numbered_def schet_invoice_column_def schet_filter_data_by_invoice_def
      select_equal_def select_rows_def cell_def string_evals)

subsection \<open>Datasets without a key\<close>

lemma pdf_frame_without_key:
  "find is_invoice_key (columns df) = None \<Longrightarrow> filter_data_by_invoice (Frame df) i = Frame df"
  by (simp add: filter_data_by_invoice_def find_None_filter)

lemma schet_frame_without_key:
  "schet_invoice_column (columns df) = None \<Longrightarrow> schet_filter_data_by_invoice df i = df"
  by (auto simp: schet_invoice_column_def schet_filter_data_by_invoice_def find_None_filter
      split: if_splits)

text \<open>
  C2. A table without a key column comes back unchanged from both generators (the two
  lemmas above). A list of records does not: for the list whose one record has the
  keys \<open>name\<close> and \<open>total\<close>, no key passes the test, and the filter returns the empty
  list.
\<close>

theorem keyless_list_is_emptied:
  "get_available_invoices (Plain ex_keyless) = []
   \<and> filter_data_by_invoice (Plain ex_keyless) (ascii ''INV-1'') = Plain (VList [])"
  by (simp add: ex_keyless_def get_available_invoices_def filter_data_by_invoice_def
      item_matches_def item_ids_def is_invoice_key_def string_evals)

section \<open>Properties: reading the data files\<close>







text \<open>
  C8. When the JSON document is a single object, \<open>read_json_file\<close> returns the list
  whose one element is that object, fields and all; when the document is a list, it
  returns that list as it is.
\<close>

theorem read_json_wraps:
  "(json_load p = Returned (VDict obj) \<longrightarrow>
      fst (read_json_file json_load p) = [VDict obj]
      \<and> length (fst (read_json_file json_load p)) = 1)
   \<and> (json_load p = Returned (VList xs) \<longrightarrow> fst (read_json_file json_load p) = xs)"
  by (simp add: read_json_file_def)

theorem read_json_wraps_witness:
  "fst (read_json_file ex_json_object (ascii ''data/one.json''))
     = [VDict [(ascii ''id'', VInt 7), (ascii ''total'', VInt 100)]]
   \<and> length (fst (read_json_file ex_json_object (ascii ''data/one.json''))) = 1
   \<and> fst (read_json_file ex_json_list (ascii ''data/list.json''))
     = [VDict [(ascii ''name'', VStr (ascii ''Ann'')), (ascii ''total'', VInt 5)]]"
  using read_json_wraps [of ex_json_object "ascii ''data/one.json''"
          "[(ascii ''id'', VInt 7), (ascii ''total'', VInt 100)]" "[]"]
        read_json_wraps [of ex_json_list "ascii ''data/list.json''" "[]"
          "[VDict [(ascii ''name'', VStr (ascii ''Ann'')), (ascii ''total'', VInt 5)]]"]
  by (simp add: ex_keyless_def ex_json_object_def ex_json_list_def)

section \<open>Properties: choosing the PDF backend\<close>

text \<open>
  C6. \<open>generate_pdf\<close> hands the rendered HTML to WeasyPrint whenever WeasyPrint is
  available; otherwise, when ReportLab is available, it hands the filtered dataset to
  ReportLab; with neither it returns \<open>False\<close>, prints the four lines that tell the
  user to install a library, and leaves every file as it was. It returns a value in
  each case: no path of it raises.
\<close>

theorem backend_selection:
  "(weasyprint_available lib \<longrightarrow>
      generate_pdf lib html out data invoice_id w = generate_pdf_weasyprint lib html out w)
   \<and> (\<not> weasyprint_available lib \<and> reportlab_available lib \<longrightarrow>
      generate_pdf lib html out data invoice_id w = generate_pdf_reportlab lib data invoice_id out w)
   \<and> (\<not> weasyprint_available lib \<and> \<not> reportlab_available lib \<longrightarrow>
      fst (generate_pdf lib html out data invoice_id w) = False
      \<and> files (snd (generate_pdf lib html out data invoice_id w)) = files w
      \<and> printed (snd (generate_pdf lib html out data invoice_id w))
           = printed w @ [NoPdfLibrary, InstallOneOf, PipInstallWeasyprint, PipInstallReportlab])"
  by (simp add: generate_pdf_def)

theorem backend_selection_witness:
  "generate_pdf ex_both_backends (ascii ''<p>7</p>'') (ascii ''output/a.pdf'') (Frame ex_numbered) (ascii ''7'') ex_world
     = (True, \<lparr>files = (ascii ''output/a.pdf'', ascii ''<p>7</p>'') # files ex_world,
               printed = [PdfCreatedWeasyPrint (ascii ''output/a.pdf'')]\<rparr>)
   \<and> generate_pdf ex_reportlab_only (ascii ''<p>7</p>'') (ascii ''output/a.pdf'') (Frame ex_numbered) (ascii ''7'') ex_world
     = (True, \<lparr>files = (ascii ''output/a.pdf'', ascii ''7'') # files ex_world,
               printed = [PdfCreatedReportLab (ascii ''output/a.pdf'')]\<rparr>)
   \<and> generate_pdf ex_no_backend (ascii ''<p>7</p>'') (ascii ''output/a.pdf'') (Frame ex_numbered) (ascii ''7'') ex_world
     = (False, ex_world\<lparr>printed := [NoPdfLibrary, InstallOneOf, PipInstallWeasyprint, PipInstallReportlab]\<rparr>)"
  using backend_selection [of ex_both_backends "ascii ''<p>7</p>''" "ascii ''output/a.pdf''" "Frame ex_numbered" "ascii ''7''" ex_world]
        backend_selection [of ex_reportlab_only "ascii ''<p>7</p>''" "ascii ''output/a.pdf''" "Frame ex_numbered" "ascii ''7''" ex_world]
        backend_selection [of ex_no_backend "ascii ''<p>7</p>''" "ascii ''output/a.pdf''" "Frame ex_numbered" "ascii ''7''" ex_world]
  by (simp add: ex_both_backends_def ex_reportlab_only_def ex_no_backend_def ex_world_def
      generate_pdf_weasyprint_def generate_pdf_reportlab_def prod_eq_iff)

section \<open>Properties: the invoice counter\<close>

lemma replicate_two: "replicate 2 x = [x, x]"
  by (simp add: numeral_2_eq_2)

lemma replicate_three: "replicate 3 x = [x, x, x]"
  by (simp add: numeral_3_eq_3)

lemma dec_nonempty: "dec n \<noteq> []"
  by (subst dec.simps) simp

lemma length_dec_le3: "n < 1000 \<Longrightarrow> length (dec n) \<le> 3"
proof -
  assume n: "n < 1000"
  have a: "length (dec (n div 100)) = 1" using n by (simp add: dec.simps)
  have "length (dec (n div 10)) \<le> 2"
    using n a by (subst dec.simps) (simp add: div_mult2_eq[symmetric])
  then show ?thesis by (subst dec.simps) simp
qed

lemma length_dec_ge4: "1000 \<le> n \<Longrightarrow> 4 \<le> length (dec n)"
proof -
  assume n: "1000 \<le> n"
  have 1: "1 \<le> length (dec (n div 1000))" using dec_nonempty[of "n div 1000"] by (cases "dec (n div 1000)") auto
  have 2: "2 \<le> length (dec (n div 100))"
    using n 1 by (subst dec.simps) (auto simp: div_mult2_eq[symmetric])
  have 3: "3 \<le> length (dec (n div 10))"
    using n 2 by (subst dec.simps) (auto simp: div_mult2_eq[symmetric])
  show ?thesis using n 3 by (subst dec.simps) auto
qed

lemma format_03d_width:
  "0 \<le> n \<Longrightarrow> n < 1000 \<Longrightarrow> length (format_03d n) = 3"
  using length_dec_le3 [of "nat n"] by (simp add: format_03d_def zfill_def)

lemma format_03d_wide:
  assumes "1000 \<le> n"
  shows "format_03d n = dec (nat n)"
proof -
  from assms have "1000 \<le> nat n" by linarith
  then have "4 \<le> length (dec (nat n))" by (rule length_dec_ge4)
  with assms show ?thesis by (simp add: format_03d_def zfill_def)
qed

lemma next_number_general:
  assumes "read_counter (content st) = Returned (VInt n)" and "writable st"
  shows "get_next_invoice_number stamp st
           = (s_prefix @ format_03d (n + 1),
              st\<lparr>content := Holds (VDict [(ascii ''counter'', VInt (n + 1))])\<rparr>)"
  using assms by (simp add: get_next_invoice_number_def add_one_def)

lemma next_number_fallback:
  "read_counter (content st) = Raised e \<Longrightarrow> get_next_invoice_number stamp st = (s_prefix @ stamp, st)"
  by (simp add: get_next_invoice_number_def)

text \<open>
  C5, as the code has it. The number is the prefix followed by the counter in decimal,
  filled with zeros to at least three digits: exactly three digits up to 999, and as
  many digits as the counter has from 1000 on. With no counter file the first call
  returns the prefix and \<open>001\<close> and leaves the store holding 1, and the next call
  returns the prefix and \<open>002\<close>. In general a call that finds the integer \<open>n\<close> stored
  (0 when the file or the entry is missing) and can write the file stores \<open>n + 1\<close>
  and returns the number formatted from \<open>n + 1\<close>.
\<close>

theorem next_invoice_number:
  "(content st = Missing \<and> writable st \<longrightarrow>
      get_next_invoice_number stamp st
        = (s_prefix @ ascii ''001'', st\<lparr>content := Holds (VDict [(ascii ''counter'', VInt 1)])\<rparr>)
      \<and> get_next_invoice_number stamp' (snd (get_next_invoice_number stamp st))
        = (s_prefix @ ascii ''002'', st\<lparr>content := Holds (VDict [(ascii ''counter'', VInt 2)])\<rparr>))
   \<and> (read_counter (content st) = Returned (VInt n) \<and> writable st \<longrightarrow>
      get_next_invoice_number stamp st
        = (s_prefix @ format_03d (n + 1),
           st\<lparr>content := Holds (VDict [(ascii ''counter'', VInt (n + 1))])\<rparr>))
   \<and> (0 \<le> m \<longrightarrow> format_03d m = replicate (3 - length (dec (nat m))) 48 @ dec (nat m))
   \<and> (0 \<le> m \<and> m < 1000 \<longrightarrow> length (format_03d m) = 3)
   \<and> (1000 \<le> m \<longrightarrow> format_03d m = dec (nat m) \<and> 4 \<le> length (format_03d m))"
proof (intro conjI impI)
  assume a: "content st = Missing \<and> writable st"
  then have r: "read_counter (content st) = Returned (VInt 0)" by (simp add: read_counter_def)
  have f1: "format_03d 1 = ascii ''001''" by (simp add: format_03d_def zfill_def dec.simps replicate_two replicate_three)
  have f2: "format_03d 2 = ascii ''002''" by (simp add: format_03d_def zfill_def dec.simps replicate_two replicate_three)
  from a r show 1: "get_next_invoice_number stamp st
        = (s_prefix @ ascii ''001'', st\<lparr>content := Holds (VDict [(ascii ''counter'', VInt 1)])\<rparr>)"
    using next_number_general [of st 0 stamp] f1 by simp
  have "read_counter (content (st\<lparr>content := Holds (VDict [(ascii ''counter'', VInt 1)])\<rparr>))
          = Returned (VInt 1)"
    by (simp add: read_counter_def)
  moreover from a have "writable (st\<lparr>content := Holds (VDict [(ascii ''counter'', VInt 1)])\<rparr>)"
    by simp
  ultimately have "get_next_invoice_number stamp' (st\<lparr>content := Holds (VDict [(ascii ''counter'', VInt 1)])\<rparr>)
        = (s_prefix @ format_03d (1 + 1),
           st\<lparr>content := Holds (VDict [(ascii ''counter'', VInt 1)])\<rparr>
             \<lparr>content := Holds (VDict [(ascii ''counter'', VInt (1 + 1))])\<rparr>)"
    by (rule next_number_general)
  then show "get_next_invoice_number stamp' (snd (get_next_invoice_number stamp st))
        = (s_prefix @ ascii ''002'', st\<lparr>content := Holds (VDict [(ascii ''counter'', VInt 2)])\<rparr>)"
    unfolding 1 using f2 by simp
next
  assume "read_counter (content st) = Returned (VInt n) \<and> writable st"
  then show "get_next_invoice_number stamp st
        = (s_prefix @ format_03d (n + 1),
           st\<lparr>content := Holds (VDict [(ascii ''counter'', VInt (n + 1))])\<rparr>)"
    using next_number_general by blast
next
  assume "0 \<le> m"
  then show "format_03d m = replicate (3 - length (dec (nat m))) 48 @ dec (nat m)"
    by (simp add: format_03d_def zfill_def)
next
  assume "0 \<le> m \<and> m < 1000"
  then show "length (format_03d m) = 3" by (simp add: format_03d_width)
next
  assume "1000 \<le> m"
  then show "format_03d m = dec (nat m)" by (rule format_03d_wide)
next
  assume m: "1000 \<le> m"
  then have "1000 \<le> nat m" by linarith
  then have "4 \<le> length (dec (nat m))" by (rule length_dec_ge4)
  with m show "4 \<le> length (format_03d m)" by (simp add: format_03d_wide)
qed

theorem next_invoice_number_witness:
  "get_next_invoice_number (ascii ''202401011200'') ex_fresh_store
     = (s_prefix @ ascii ''001'', \<lparr>content = Holds (VDict [(ascii ''counter'', VInt 1)]), writable = True\<rparr>)
   \<and> get_next_invoice_number (ascii ''202401011201'')
        (snd (get_next_invoice_number (ascii ''202401011200'') ex_fresh_store))
     = (s_prefix @ ascii ''002'', \<lparr>content = Holds (VDict [(ascii ''counter'', VInt 2)]), writable = True\<rparr>)
   \<and> get_next_invoice_number (ascii ''202401011200'') ex_store_999
     = (s_prefix @ ascii ''1000'', \<lparr>content = Holds (VDict [(ascii ''counter'', VInt 1000)]), writable = True\<rparr>)
   \<and> length (format_03d 42) = 3
   \<and> format_03d 1000 = ascii ''1000''"
  using next_invoice_number [of ex_fresh_store "ascii ''202401011200''" "ascii ''202401011201''" 0 42]
        next_invoice_number [of ex_store_999 "ascii ''202401011200''" "ascii ''202401011201''" 999 1000]
  by (simp add: ex_fresh_store_def ex_store_999_def get_next_invoice_number_def read_counter_def
      add_one_def format_03d_def zfill_def dec.simps replicate_two replicate_three)

text \<open>
  The claim as it was stated fails: after invoice 999 the counter part of the next
  number has four digits.
\<close>

theorem counter_outgrows_three_digits_counterexample:
  "get_next_invoice_number (ascii ''202401011200'') ex_store_999
     = (s_prefix @ ascii ''1000'', \<lparr>content = Holds (VDict [(ascii ''counter'', VInt 1000)]), writable = True\<rparr>)
   \<and> length (ascii ''1000'') = 4"
  by (simp add: get_next_invoice_number_def ex_store_999_def read_counter_def add_one_def
      format_03d_def zfill_def dec.simps)

section \<open>Properties: a new invoice\<close>

lemmas field_names =
  s_nomer_scheta_def s_data_def s_klient_def s_tovar_def s_kolichestvo_def s_cena_def
  s_summa_def s_status_def

lemma distinct_invoice_columns: "distinct invoice_columns"
  by (simp add: invoice_columns_def field_names)

lemma invoice_record_keys:
  "invoice_record n d c item = Returned r \<Longrightarrow> map fst r = invoice_columns"
  by (auto simp: invoice_record_def invoice_columns_def split: attempt.splits)

lemma invoice_record_values:
  assumes "invoice_record n d c item = Returned r"
  shows "dict_get r s_nomer_scheta VNaN = VStr n"
    and "dict_get r s_data VNaN = VStr d"
    and "dict_get r s_klient VNaN = VStr c"
    and "dict_get r s_status VNaN = VStr s_wait"
    and "dict_get r s_kolichestvo VNaN = dict_get item s_kolichestvo (VInt 1)"
    and "dict_get r s_cena VNaN = dict_get item s_cena (VInt 0)"
    and "py_mul (dict_get r s_kolichestvo VNaN) (dict_get r s_cena VNaN) = Returned (dict_get r s_summa VNaN)"
  using assms
  by (auto simp: invoice_record_def split: attempt.splits, (simp add: dict_get_def field_names)+)

lemma invoice_data_length:
  "invoice_data n dates c k items = Returned rs \<Longrightarrow> length rs = length items"
  by (induction items arbitrary: k rs) (auto split: attempt.splits)

lemma invoice_data_nth:
  "invoice_data n dates c k items = Returned rs \<Longrightarrow> i < length items
     \<Longrightarrow> invoice_record n (dates (k + i)) c (items ! i) = Returned (rs ! i)"
proof (induction items arbitrary: k rs i)
  case Nil
  then show ?case by simp
next
  case (Cons item items)
  then obtain r rs' where r: "invoice_record n (dates k) c item = Returned r"
    and rs': "invoice_data n dates c (Suc k) items = Returned rs'" and rs: "rs = r # rs'"
    by (auto split: attempt.splits)
  show ?case
  proof (cases i)
    case 0
    with r rs show ?thesis by simp
  next
    case (Suc j)
    with Cons.prems have "j < length items" by simp
    from Cons.IH [OF rs' this] Suc rs show ?thesis by simp
  qed
qed

lemma remdups_append_subset:
  "set xs \<subseteq> set ys \<Longrightarrow> remdups (xs @ ys) = remdups ys"
  by (induction xs) auto

lemma first_occurrences:
  assumes "distinct ks" and "set ys \<subseteq> set ks"
  shows "rev (remdups (rev (ks @ ys))) = ks"
proof -
  have "remdups (rev ys @ rev ks) = remdups (rev ks)"
    using assms(2) by (intro remdups_append_subset) simp
  also have "\<dots> = rev ks" using assms(1) by (simp add: distinct_remdups_id)
  finally show ?thesis by simp
qed

lemma frame_of_records_columns:
  assumes "\<forall>d \<in> set ds. map fst d = ks" and "ds \<noteq> []" and "distinct ks"
  shows "columns (frame_of_records ds) = ks"
proof -
  from assms(2) obtain d ds' where ds: "ds = d # ds'" by (cases ds) auto
  have "concat (map (map fst) ds) = ks @ concat (map (map fst) ds')"
    using assms(1) ds by simp
  moreover have "set (concat (map (map fst) ds')) \<subseteq> set ks"
    using assms(1) ds by auto
  ultimately show ?thesis
    using first_occurrences [OF assms(3)] by (simp add: frame_of_records_def Let_def)
qed

lemma map_of_zip_map_fun:
  "map_of (zip ks (map f ks)) c = (if c \<in> set ks then Some (f c) else None)"
  by (induction ks) auto

lemma frame_of_records_cell:
  assumes "i < length ds" and "c \<in> set (columns (frame_of_records ds))"
  shows "cell (columns (frame_of_records ds)) (rows (frame_of_records ds) ! i) c = dict_get (ds ! i) c VNaN"
  using assms by (simp add: frame_of_records_def Let_def cell_def map_of_zip_map_fun)

lemma new_invoice_data_unfold:
  assumes "new_invoice_data stamp dates st customer items = (Returned df, st')"
  obtains rs where "invoice_data (fst (get_next_invoice_number stamp st)) dates customer 0 items = Returned rs"
    and "df = frame_of_records rs" and "st' = snd (get_next_invoice_number stamp st)"
  using assms by (auto simp: new_invoice_data_def split: prod.splits attempt.splits)

text \<open>The records are built whenever every quantity and price is an integer or is left out.\<close>

lemma invoice_data_returns:
  assumes "\<forall>item \<in> set items.
      as_int (dict_get item s_kolichestvo (VInt 1)) \<noteq> None
      \<and> as_int (dict_get item s_cena (VInt 0)) \<noteq> None"
  shows "\<exists>rs. invoice_data n dates c k items = Returned rs"
  using assms
proof (induction items arbitrary: k)
  case Nil
  then show ?case by simp
next
  case (Cons item items)
  then obtain rs where "invoice_data n dates c (Suc k) items = Returned rs" by fastforce
  moreover from Cons.prems obtain x y where
    "as_int (dict_get item s_kolichestvo (VInt 1)) = Some x" "as_int (dict_get item s_cena (VInt 0)) = Some y"
    by auto
  ultimately show ?case by (simp add: invoice_record_def py_mul_def)
qed

text \<open>
  C10, as the code has it. Whenever \<open>generate_new_invoice\<close> gets as far as its
  dataset, the dataset has one row per item, and every row carries the number just
  taken from the counter, the customer name, the status "awaiting payment", the
  quantity and the unit price of its item (1 and 0 when the item leaves them out) and
  their product under \<open>*\<close> as the line total. The date of a row is the clock's date
  at the moment that row is built: the rows agree on it as long as the date does not
  change while they are built.
\<close>

theorem new_invoice_records:
  assumes "new_invoice_data stamp dates st customer items = (Returned df, st')"
    and "i < length items"
  shows "length (rows df) = length items
    \<and> cell (columns df) (rows df ! i) s_nomer_scheta = VStr (fst (get_next_invoice_number stamp st))
    \<and> cell (columns df) (rows df ! i) s_data = VStr (dates i)
    \<and> cell (columns df) (rows df ! i) s_klient = VStr customer
    \<and> cell (columns df) (rows df ! i) s_status = VStr s_wait
    \<and> cell (columns df) (rows df ! i) s_kolichestvo = dict_get (items ! i) s_kolichestvo (VInt 1)
    \<and> cell (columns df) (rows df ! i) s_cena = dict_get (items ! i) s_cena (VInt 0)
    \<and> py_mul (cell (columns df) (rows df ! i) s_kolichestvo) (cell (columns df) (rows df ! i) s_cena)
        = Returned (cell (columns df) (rows df ! i) s_summa)"
proof -
  let ?n = "fst (get_next_invoice_number stamp st)"
  from assms(1) obtain rs where rs: "invoice_data ?n dates customer 0 items = Returned rs"
    and df: "df = frame_of_records rs"
    by (rule new_invoice_data_unfold)
  have len: "length rs = length items" by (rule invoice_data_length [OF rs])
  with assms(2) have i: "i < length rs" and ne: "rs \<noteq> []" by auto
  have rec: "invoice_record ?n (dates i) customer (items ! i) = Returned (rs ! i)"
    using invoice_data_nth [OF rs assms(2)] by simp
  have keys: "\<forall>d \<in> set rs. map fst d = invoice_columns"
  proof
    fix d assume "d \<in> set rs"
    then obtain j where j: "j < length rs" and d: "d = rs ! j" by (auto simp: in_set_conv_nth)
    from j len have "j < length items" by simp
    from invoice_data_nth [OF rs this] d show "map fst d = invoice_columns"
      by (auto dest: invoice_record_keys)
  qed
  have cols: "columns df = invoice_columns"
    unfolding df by (rule frame_of_records_columns [OF keys ne distinct_invoice_columns])
  have cellv: "cell (columns df) (rows df ! i) c = dict_get (rs ! i) c VNaN"
    if "c \<in> set invoice_columns" for c
    using frame_of_records_cell [OF i, of c] that cols df by simp
  have rows: "length (rows df) = length items"
    using len by (simp add: df frame_of_records_def Let_def)
  show ?thesis
    using rows invoice_record_values [OF rec]
    by (simp add: cellv invoice_columns_def)
qed

lemmas new_invoice_evals =
  new_invoice_data_def get_next_invoice_number_def read_counter_def add_one_def format_03d_def
  zfill_def dec.simps invoice_record_def py_mul_def as_int_def times_int_def dict_get_def
  frame_of_records_def field_names s_wait_def s_prefix_def

lemma ex_new_invoice_built:
  "new_invoice_data (ascii ''202405171030'') ex_same_day ex_fresh_store (ascii ''Test Ltd'') ex_items
     = (Returned ex_new_invoice, \<lparr>content = Holds (VDict [(ascii ''counter'', VInt 1)]), writable = True\<rparr>)"
  by (simp add: ex_items_def ex_same_day_def ex_fresh_store_def ex_new_invoice_def new_invoice_evals
      numeral_2_eq_2)

theorem new_invoice_records_witness:
  "new_invoice_data (ascii ''202405171030'') ex_same_day ex_fresh_store (ascii ''Test Ltd'') ex_items
     = (Returned ex_new_invoice, \<lparr>content = Holds (VDict [(ascii ''counter'', VInt 1)]), writable = True\<rparr>)
   \<and> 2 < length ex_items
   \<and> length (rows ex_new_invoice) = 3
   \<and> cell (columns ex_new_invoice) (rows ex_new_invoice ! 2) s_nomer_scheta = VStr (s_prefix @ ascii ''001'')
   \<and> cell (columns ex_new_invoice) (rows ex_new_invoice ! 2) s_data = VStr (ascii ''2024-05-17'')
   \<and> cell (columns ex_new_invoice) (rows ex_new_invoice ! 2) s_klient = VStr (ascii ''Test Ltd'')
   \<and> cell (columns ex_new_invoice) (rows ex_new_invoice ! 2) s_status = VStr s_wait
   \<and> cell (columns ex_new_invoice) (rows ex_new_invoice ! 2) s_kolichestvo = VInt 1
   \<and> cell (columns ex_new_invoice) (rows ex_new_invoice ! 2) s_cena = VInt 0
   \<and> cell (columns ex_new_invoice) (rows ex_new_invoice ! 2) s_summa = VInt 0"
proof -
  have len: "2 < length ex_items" by (simp add: ex_items_def)
  have vals: "cell (columns ex_new_invoice) (rows ex_new_invoice ! 2) s_kolichestvo = VInt 1"
    "cell (columns ex_new_invoice) (rows ex_new_invoice ! 2) s_cena = VInt 0"
    "cell (columns ex_new_invoice) (rows ex_new_invoice ! 2) s_summa = VInt 0"
    by (simp_all add: ex_new_invoice_def cell_def field_names)
  have num: "fst (get_next_invoice_number (ascii ''202405171030'') ex_fresh_store) = s_prefix @ ascii ''001''"
    by (simp add: ex_fresh_store_def get_next_invoice_number_def read_counter_def add_one_def
        format_03d_def zfill_def dec.simps numeral_2_eq_2)
  from new_invoice_records [OF ex_new_invoice_built len] len vals num ex_new_invoice_built
  show ?thesis by (simp add: ex_same_day_def ex_items_def)
qed

text \<open>
  The claim as it was stated fails: with a clock that passes midnight after the first
  item, the rows of one invoice carry two different dates.
\<close>

theorem new_invoice_dates_differ_counterexample:
  "new_invoice_data (ascii ''202412312359'') ex_midnight ex_fresh_store (ascii ''Test Ltd'') ex_items
     = (Returned ex_midnight_invoice, \<lparr>content = Holds (VDict [(ascii ''counter'', VInt 1)]), writable = True\<rparr>)
   \<and> column ex_midnight_invoice s_data
     = [VStr (ascii ''2024-12-31''), VStr (ascii ''2025-01-01''), VStr (ascii ''2025-01-01'')]"
  by (simp add: ex_items_def ex_midnight_def ex_fresh_store_def ex_midnight_invoice_def new_invoice_evals
      numeral_2_eq_2 column_def cell_def)

section \<open>Properties: the key of a dataset\<close>

lemma pdf_frame_listing:
  assumes "find is_invoice_key (columns df) = Some c"
  shows "get_available_invoices (Frame df) = sort (remdups (map py_str (column df c)))"
proof -
  from find_filter_hd [OF assms] obtain cs where "filter is_invoice_key (columns df) = c # cs" ..
  then show ?thesis by (simp add: get_available_invoices_def)
qed

lemma schet_frame_listing:
  assumes "schet_invoice_column (columns df) = Some c"
  shows "schet_get_available_invoices df = sorted_unique df c"
proof (cases "s_nomer_scheta \<in> set (columns df)")
  case True
  with assms show ?thesis
    by (simp add: schet_invoice_column_def schet_get_available_invoices_def)
next
  case F1: False
  show ?thesis
  proof (cases "ascii ''invoice_id'' \<in> set (columns df)")
    case True
    with F1 assms show ?thesis
      by (simp add: schet_invoice_column_def schet_get_available_invoices_def)
  next
    case False
    with F1 assms have "find schet_is_invoice_key (columns df) = Some c"
      by (simp add: schet_invoice_column_def)
    from find_filter_hd [OF this] obtain cs where "filter schet_is_invoice_key (columns df) = c # cs" ..
    with F1 False show ?thesis
      by (simp add: schet_get_available_invoices_def)
  qed
qed

lemma schet_frame_filter_select:
  assumes "schet_invoice_column (columns df) = Some c"
  shows "schet_filter_data_by_invoice df i = select_equal df c i"
  using schet_frame_filter [OF assms, of i] by (simp add: select_equal_def select_rows_def)

lemma item_ids_own_key:
  "item_ids item =
     (case item of
        VDict d \<Rightarrow>
          (case own_key d of
             Some k \<Rightarrow> (case map_of d k of Some v \<Rightarrow> [py_str v] | None \<Rightarrow> [])
           | None \<Rightarrow> [])
      | _ \<Rightarrow> [])"
  by (simp add: item_ids_def item_invoice_find own_key_def split: pyval.splits option.splits)

lemma item_matches_own_key:
  "item_matches i item =
     (case item of
        VDict d \<Rightarrow>
          (case own_key d of
             Some k \<Rightarrow> (case map_of d k of Some v \<Rightarrow> py_str v = i | None \<Rightarrow> False)
           | None \<Rightarrow> False)
      | _ \<Rightarrow> False)"
  by (simp add: item_matches_def item_invoice_find own_key_def split: pyval.splits option.splits)

text \<open>
  C1, as the code has it. For a table each generator settles on one key column from the
  column names alone, and both its listing and its filter read every row under that
  column. PDFGenerator takes the first column whose lower-cased name holds \<open>invoice\<close>
  or \<open>id\<close>. SchetGenerator takes the fixed Cyrillic invoice-number column if it is
  there, else \<open>invoice_id\<close> if it is there, else the first column whose lower-cased
  name holds the Cyrillic word for invoice or \<open>invoice\<close>. For a list of records
  PDFGenerator chooses per record: each dict is read, by the listing and by the filter,
  under its own first key that holds \<open>invoice\<close> or \<open>id\<close>.
\<close>

theorem key_discovery:
  "(find is_invoice_key (columns df) = Some c \<longrightarrow>
      get_available_invoices (Frame df) = sort (remdups (map py_str (column df c)))
      \<and> filter_data_by_invoice (Frame df) i
          = Frame (select_rows df (\<lambda>r. py_str (cell (columns df) r c) = i)))
   \<and> get_available_invoices (Plain (VList items))
       = sort (remdups (concat (map (\<lambda>item. case item of
            VDict d \<Rightarrow>
              (case own_key d of
                 Some k \<Rightarrow> (case map_of d k of Some v \<Rightarrow> [py_str v] | None \<Rightarrow> [])
               | None \<Rightarrow> [])
          | _ \<Rightarrow> []) items)))
   \<and> filter_data_by_invoice (Plain (VList items)) i
       = Plain (VList (filter (\<lambda>item. case item of
            VDict d \<Rightarrow>
              (case own_key d of
                 Some k \<Rightarrow> (case map_of d k of Some v \<Rightarrow> py_str v = i | None \<Rightarrow> False)
               | None \<Rightarrow> False)
          | _ \<Rightarrow> False) items))
   \<and> (schet_invoice_column (columns df) = Some c' \<longrightarrow>
        schet_get_available_invoices df = sorted_unique df c'
        \<and> schet_filter_data_by_invoice df i = select_equal df c' i)"
proof (intro conjI impI)
  assume c: "find is_invoice_key (columns df) = Some c"
  then show "get_available_invoices (Frame df) = sort (remdups (map py_str (column df c)))"
    by (rule pdf_frame_listing)
  from pdf_frame_filter [OF c, of i]
  show "filter_data_by_invoice (Frame df) i
          = Frame (select_rows df (\<lambda>r. py_str (cell (columns df) r c) = i))"
    by (simp add: select_rows_def)
next
  have "item_ids = (\<lambda>item. case item of
            VDict d \<Rightarrow>
              (case own_key d of
                 Some k \<Rightarrow> (case map_of d k of Some v \<Rightarrow> [py_str v] | None \<Rightarrow> [])
               | None \<Rightarrow> [])
          | _ \<Rightarrow> [])"
    by (rule ext) (rule item_ids_own_key)
  then show "get_available_invoices (Plain (VList items))
       = sort (remdups (concat (map (\<lambda>item. case item of
            VDict d \<Rightarrow>
              (case own_key d of
                 Some k \<Rightarrow> (case map_of d k of Some v \<Rightarrow> [py_str v] | None \<Rightarrow> [])
               | None \<Rightarrow> [])
          | _ \<Rightarrow> []) items)))"
    by (simp add: get_available_invoices_def)
next
  have "item_matches i = (\<lambda>item. case item of
            VDict d \<Rightarrow>
              (case own_key d of
                 Some k \<Rightarrow> (case map_of d k of Some v \<Rightarrow> py_str v = i | None \<Rightarrow> False)
               | None \<Rightarrow> False)
          | _ \<Rightarrow> False)"
    by (rule ext) (rule item_matches_own_key)
  then show "filter_data_by_invoice (Plain (VList items)) i
       = Plain (VList (filter (\<lambda>item. case item of
            VDict d \<Rightarrow>
              (case own_key d of
                 Some k \<Rightarrow> (case map_of d k of Some v \<Rightarrow> py_str v = i | None \<Rightarrow> False)
               | None \<Rightarrow> False)
          | _ \<Rightarrow> False) items))"
    by (simp add: filter_data_by_invoice_def)
next
  assume c': "schet_invoice_column (columns df) = Some c'"
  then show "schet_get_available_invoices df = sorted_unique df c'" by (rule schet_frame_listing)
  from c' show "schet_filter_data_by_invoice df i = select_equal df c' i"
    by (rule schet_frame_filter_select)
qed

lemmas listing_evals =
  get_available_invoices_def filter_data_by_invoice_def item_ids_def item_matches_def
  is_invoice_key_def schet_is_invoice_key_def schet_invoice_column_def
  schet_get_available_invoices_def sorted_unique_def py_unique_def hashable_def same_key_def
  as_int_def py_lt_def select_equal_def select_rows_def column_def cell_def

theorem key_discovery_witness:
  "find is_invoice_key (columns ex_orders) = Some (ascii ''invoice_id'')
   \<and> get_available_invoices (Frame ex_orders) = [ascii ''INV-1'', ascii ''INV-2'']
   \<and> filter_data_by_invoice (Frame ex_orders) (ascii ''INV-2'')
       = Frame (ex_orders\<lparr>rows := [[VStr (ascii ''INV-2''), VStr (ascii ''Bob''), VStr (ascii ''cup''), VInt 3]]\<rparr>)
   \<and> schet_invoice_column (columns ex_orders) = Some (ascii ''invoice_id'')
   \<and> schet_get_available_invoices ex_orders = Returned [VStr (ascii ''INV-1''), VStr (ascii ''INV-2'')]
   \<and> rows (schet_filter_data_by_invoice ex_orders (ascii ''INV-2''))
       = [[VStr (ascii ''INV-2''), VStr (ascii ''Bob''), VStr (ascii ''cup''), VInt 3]]"
  using key_discovery [of ex_orders "ascii ''invoice_id''" "ascii ''INV-2''" "[]" "ascii ''invoice_id''"]
  by (simp add: ex_orders_def listing_evals string_evals)

text \<open>
  The claim as it was stated fails. In the list of two records the resolver of the
  specification settles on \<open>invoice_id\<close> and lists both invoices; the code reads the
  second record under \<open>customer_id\<close>, lists the customer in place of the second
  invoice, and finds no record for that invoice. Neither generator applies the whole
  test of the specification: PDFGenerator finds no key in a table whose id column has
  the bare Cyrillic name, SchetGenerator finds none in a table whose id column is
  \<open>id\<close>, and SchetGenerator puts its fixed column name ahead of an earlier column
  that passes.
\<close>

theorem key_per_record_counterexample:
  "spec_key (Plain ex_mixed_keys) = Some (ascii ''invoice_id'')
   \<and> spec_resolve_invoices (Plain ex_mixed_keys) = [ascii ''INV-1'', ascii ''INV-2'']
   \<and> get_available_invoices (Plain ex_mixed_keys) = [ascii ''C7'', ascii ''INV-1'']
   \<and> filter_data_by_invoice (Plain ex_mixed_keys) (ascii ''INV-2'') = Plain (VList [])
   \<and> spec_key (Frame ex_cyrillic) = Some s_schet
   \<and> get_available_invoices (Frame ex_cyrillic) = []
   \<and> spec_key (Frame ex_plain_id) = Some (ascii ''id'')
   \<and> schet_invoice_column (columns ex_plain_id) = None
   \<and> find spec_is_invoice_key ex_two_names = Some (ascii ''invoice_ref'')
   \<and> schet_invoice_column ex_two_names = Some s_nomer_scheta"
  by (simp add: ex_mixed_keys_def ex_cyrillic_def ex_plain_id_def ex_two_names_def
      spec_key_def spec_field_names_def spec_is_invoice_key_def spec_resolve_invoices_def
      spec_values_def listing_evals string_evals)

section \<open>Properties: rendering a template\<close>






lemma calm_tail: "calm (c # t) \<Longrightarrow> calm t"
  by (auto simp: calm_def)

lemma calm_no_prefix: "calm t \<Longrightarrow> t \<noteq> [] \<Longrightarrow> \<not> prefix (123 # 123 # p) (t @ r)"
proof (cases t)
  case Nil
  then show "t \<noteq> [] \<Longrightarrow> ?thesis" by simp
next
  case (Cons c t')
  assume "calm t"
  show ?thesis
  proof (cases t')
    case Nil
    with Cons \<open>calm t\<close> show ?thesis by (auto simp: calm_def)
  next
    case (Cons d t'')
    with \<open>t = c # t'\<close> \<open>calm t\<close> show ?thesis by (auto simp: calm_def)
  qed
qed




lemma fill_Text [simp]: "fill a new (Text t) = Text t"
  by (simp add: fill_def)

lemma fill_Slot [simp]: "fill a new (Slot n) = (if n = a then Text new else Slot n)"
  by (simp add: fill_def)


lemma calm_append: "calm s \<Longrightarrow> calm t \<Longrightarrow> calm (s @ t)"
proof (induction s)
  case Nil
  then show ?case by simp
next
  case (Cons c s)
  then have s: "calm s" by (auto dest: calm_tail)
  with Cons have st: "calm (s @ t)" by simp
  have "\<not> prefix [123, 123] ((c # s) @ t)"
    using calm_no_prefix [OF Cons.prems(1), of "[]" t] by simp
  with st Cons.prems show ?case by (auto simp: calm_def)
qed



















lemma no_open_calm: "123 \<notin> set t \<Longrightarrow> calm t"
proof -
  assume t: "123 \<notin> set t"
  have "\<not> py_in [123, 123] t" using t by (induction t) auto
  moreover have "t = [] \<or> last t \<noteq> 123" using t by (cases "t = []") (auto dest: last_in_set)
  ultimately show ?thesis by (simp add: calm_def)
qed

lemma calm_concat_wrap:
  assumes "123 \<notin> set a" and "123 \<notin> set b" and "list_all (\<lambda>x. calm (f x)) xs"
  shows "calm (concat (map (\<lambda>x. a @ f x @ b) xs))"
  using assms(3)
proof (induction xs)
  case Nil
  show ?case by (simp add: calm_def)
next
  case (Cons x xs)
  then have x: "calm (f x)" and rest: "calm (concat (map (\<lambda>x. a @ f x @ b) xs))" by simp_all
  have "calm (a @ f x @ b)"
    by (intro calm_append x no_open_calm assms(1,2))
  then have "calm ((a @ f x @ b) @ concat (map (\<lambda>x. a @ f x @ b) xs))"
    using rest by (rule calm_append)
  then show ?case by simp
qed

text \<open>The items table is calm when the texts in its cells are.\<close>

lemma table_markup_calm:
  assumes "list_all calm header" and "list_all (list_all calm) body"
  shows "calm (table_markup header body)"
proof -
  have no_open: "123 \<notin> set (ascii s)" if "CHR ''{'' \<notin> set s" for s
    using that by (induction s) (auto simp: of_char_eq_iff [where ?'a = nat, symmetric] simp del: of_char_eq_iff)
  have cells: "calm (concat (map (\<lambda>c. ascii ''<td>'' @ c @ ascii ''</td>'') row))"
    if "list_all calm row" for row
    using that by (intro calm_concat_wrap no_open) simp_all
  have head: "calm (concat (map (\<lambda>h. ascii ''<th>'' @ h @ ascii ''</th>'') header))"
    using assms(1) by (intro calm_concat_wrap no_open) simp_all
  have rows: "calm (concat (map (\<lambda>row. ascii ''<tr>''
                             @ concat (map (\<lambda>c. ascii ''<td>'' @ c @ ascii ''</td>'') row)
                             @ ascii ''</tr>'') body))"
  proof (intro calm_concat_wrap no_open)
    show "list_all (\<lambda>row. calm (concat (map (\<lambda>c. ascii ''<td>'' @ c @ ascii ''</td>'') row))) body"
      using assms(2) cells by (simp add: list_all_iff)
  qed simp_all
  show ?thesis
    unfolding table_markup_def
    by (intro calm_append head rows no_open_calm no_open) simp_all
qed

lemma no_double_newline:
  "\<not> py_in [123, 123] a \<Longrightarrow> \<not> py_in [123, 123] b \<Longrightarrow> \<not> py_in [123, 123] (a @ 10 # b)"
proof (induction a)
  case Nil
  then show ?case by simp
next
  case (Cons c a)
  then show ?case by (cases a) auto
qed

lemma no_double_join:
  "list_all (\<lambda>l. \<not> py_in [123, 123] l) ls \<Longrightarrow> \<not> py_in [123, 123] (join [10] ls)"
proof (induction "[10::nat]" ls rule: join.induct)
  case 1
  then show ?case by simp
next
  case (2 x)
  then show ?case by simp
next
  case (3 x y ys)
  then have "\<not> py_in [123, 123] x" and "\<not> py_in [123, 123] (join [10] (y # ys))" by simp_all
  then have "\<not> py_in [123, 123] (x @ 10 # join [10] (y # ys))" by (rule no_double_newline)
  then show ?case by simp
qed

lemma join_nonempty:
  "ls \<noteq> [] \<Longrightarrow> last ls \<noteq> [] \<Longrightarrow> join sep ls \<noteq> []"
  by (induction sep ls rule: join.induct) auto

lemma last_join:
  "ls \<noteq> [] \<Longrightarrow> last ls \<noteq> [] \<Longrightarrow> last (join sep ls) = last (last ls)"
proof (induction sep ls rule: join.induct)
  case (3 sep x y ys)
  then have "join sep (y # ys) \<noteq> []" by (intro join_nonempty) auto
  with 3 show ?case by simp
qed simp_all

lemma calm_lines:
  assumes "list_all (\<lambda>l. \<not> py_in [123, 123] l) ls" and "ls \<noteq> []" and "last ls \<noteq> []"
    and "last (last ls) \<noteq> 123"
  shows "calm (join [10] ls)"
  using no_double_join [OF assms(1)] last_join [OF assms(2,3), of "[10]"] assms(4)
  by (simp add: calm_def)

lemma calm_pdf_css_styles: "calm pdf_css_styles"
  unfolding pdf_css_styles_def by (rule calm_lines) simp_all

lemma calm_schet_css_styles: "calm schet_css_styles"
  unfolding schet_css_styles_def by (rule calm_lines) simp_all









end
